theory Spec2Isabelle
  imports Complex_Main
begin

section \<open>ReconnectWebSocket: the data model\<close>

text \<open>
  The development embeds \<^verbatim>\<open>src/ReconnectWebSocket.js\<close>. The class wraps one
  \<^verbatim>\<open>ws\<close> socket at a time and re-opens it after a close. Everything the class does
  happens in callbacks of the host's event loop, so the embedding is a state machine: one
  function per method and per handler, each taking the state and returning the new state
  together with the effects it had on the outside, in order.

  JavaScript numbers are modelled as exact rationals; event objects and payloads are
  opaque and modelled as strings.
\<close>

datatype readyState = CONNECTING | OPEN | CLOSING | CLOSED

type_synonym sock = nat
type_synonym payload = string

text \<open>
  The resolved settings: the defaults of the constructor overlaid with the caller's
  options. \<open>maxReconnectAttempts\<close> is \<open>null\<close> (here \<open>None\<close>) by default. \<open>debugAll\<close> is
  the static flag of the class.
\<close>

record settings =
  debug :: bool
  automaticOpen :: bool
  reconnectInterval :: rat
  maxReconnectInterval :: rat
  reconnectDecay :: rat
  timeoutInterval :: rat
  maxReconnectAttempts :: "nat option"
  binaryType :: string
  reconnectAttempt :: bool
  debugAll :: bool

definition defaults :: settings where
  "defaults =
     \<lparr> debug = False, automaticOpen = True, reconnectInterval = 1000,
       maxReconnectInterval = 30000 * 2 * 5, reconnectDecay = 3 / 2,
       timeoutInterval = 2000, maxReconnectAttempts = None, binaryType = ''blob'',
       reconnectAttempt = False, debugAll = False \<rparr>"

text \<open>
  A socket of the transport library, as far as the class can observe it: its own ready
  state, the sub-protocol the server selected, whether \<open>open\<close> assigned its four handlers,
  and whether the stall timer created for it is still pending. A socket is identified by
  its position in the list of all sockets constructed so far.
\<close>

record sockrec =
  sstate :: readyState
  sprotocol :: string
  wired :: bool
  stallArmed :: bool

definition new_sock :: sockrec where
  "new_sock = \<lparr> sstate = CONNECTING, sprotocol = [], wired = False, stallArmed = False \<rparr>"

text \<open>
  The instance fields the constructor initialises (\<open>timedOut\<close> is left undefined there,
  which is falsy), followed by the host's side: the sockets constructed so far and the
  number of retry timers that are pending.
\<close>

record conn =
  reconnectAttempts :: nat
  readyState :: readyState
  protocol :: "string option"
  ws :: "sock option"
  forcedClose :: bool
  timedOut :: bool
  socks :: "sockrec list"
  retryTimers :: nat

datatype emitted =
    Connecting "payload option"
  | Open payload bool
  | Message payload
  | Error payload
  | Close

datatype timer = Stall sock | Retry

datatype action =
    NewWebSocket sock
  | SetBinaryType sock string
  | Emit emitted
  | Debug string
  | SetTimeout timer rat
  | ClearTimeout timer
  | SockSend sock payload
  | SockClose sock "nat option" "string option"

datatype error = InvalidState | TypeError

section \<open>The methods and handlers\<close>

definition dbg :: "settings \<Rightarrow> string \<Rightarrow> action list" where
  "dbg cfg m = (if debug cfg \<or> debugAll cfg then [Debug m] else [])"

definition sock_at :: "conn \<Rightarrow> sock \<Rightarrow> sockrec" where
  "sock_at s t = (if t < length (socks s) then socks s ! t else new_sock)"

definition sock_upd :: "sock \<Rightarrow> (sockrec \<Rightarrow> sockrec) \<Rightarrow> conn \<Rightarrow> conn" where
  "sock_upd t f s =
     (if t < length (socks s) then s\<lparr>socks := (socks s)[t := f (socks s ! t)]\<rparr> else s)"

text \<open>
  \<^verbatim>\<open>this.maxReconnectAttempts && this.reconnectAttempts > this.maxReconnectAttempts\<close>:
  \<open>null\<close> and \<open>0\<close> are both falsy.
\<close>

definition exceeded :: "settings \<Rightarrow> nat \<Rightarrow> bool" where
  "exceeded cfg n =
     (case maxReconnectAttempts cfg of None \<Rightarrow> False | Some m \<Rightarrow> m \<noteq> 0 \<and> n > m)"

text \<open>
  \<open>open()\<close>. The socket is constructed and stored in \<open>this.ws\<close> first; the test of the
  attempt limit follows and returns before any handler is assigned.
\<close>

definition open_ws :: "settings \<Rightarrow> conn \<Rightarrow> conn \<times> action list" where
  "open_ws cfg s =
     (let t = length (socks s);
          s1 = s\<lparr>ws := Some t, socks := socks s @ [new_sock]\<rparr>;
          a1 = [NewWebSocket t, SetBinaryType t (binaryType cfg)]
      in if reconnectAttempt cfg \<and> exceeded cfg (reconnectAttempts s1) then (s1, a1)
         else
           let s2 = (if reconnectAttempt cfg then s1 else s1\<lparr>reconnectAttempts := 0\<rparr>);
               a2 = (if reconnectAttempt cfg then [] else [Emit (Connecting None)]);
               s3 = sock_upd t (\<lambda>r. r\<lparr>wired := True, stallArmed := True\<rparr>) s2
           in (s3, a1 @ a2 @ dbg cfg ''attempt-connect''
                    @ [SetTimeout (Stall t) (timeoutInterval cfg)]))"

text \<open>The constructor, after the settings are resolved.\<close>

definition init :: conn where
  "init =
     \<lparr> reconnectAttempts = 0, readyState = CONNECTING, protocol = None, ws = None,
       forcedClose = False, timedOut = False, socks = [], retryTimers = 0 \<rparr>"

definition construct :: "settings \<Rightarrow> conn \<times> action list" where
  "construct cfg = (if automaticOpen cfg then open_ws cfg init else (init, []))"

text \<open>
  \<open>ws.onopen\<close> of socket \<open>t\<close>. It reads \<open>this.ws.protocol\<close>, the protocol of the socket
  the instance owns at that moment, which throws when \<open>this.ws\<close> is \<open>null\<close>.
\<close>

definition onopen ::
  "settings \<Rightarrow> sock \<Rightarrow> payload \<Rightarrow> conn \<Rightarrow> conn \<times> action list \<times> error option" where
  "onopen cfg t ev s =
     (let s1 = sock_upd t (\<lambda>r. r\<lparr>stallArmed := False\<rparr>) s;
          a1 = ClearTimeout (Stall t) # dbg cfg ''onopen''
      in case ws s1 of
           None \<Rightarrow> (s1, a1, Some TypeError)
         | Some u \<Rightarrow>
             (s1\<lparr>protocol := Some (sprotocol (sock_at s1 u)), readyState := OPEN,
                  reconnectAttempts := 0\<rparr>,
              a1 @ [Emit (Open ev (reconnectAttempt cfg))], None))"

text \<open>The delay of the retry timer, from the counter as it stands at the close.\<close>

definition retry_delay :: "settings \<Rightarrow> nat \<Rightarrow> rat" where
  "retry_delay cfg n =
     (let nextTimeout = reconnectInterval cfg * reconnectDecay cfg ^ n
      in if nextTimeout > maxReconnectInterval cfg then maxReconnectInterval cfg
         else nextTimeout)"

text \<open>\<open>ws.onclose\<close> of socket \<open>t\<close>.\<close>

definition onclose :: "settings \<Rightarrow> sock \<Rightarrow> payload \<Rightarrow> conn \<Rightarrow> conn \<times> action list" where
  "onclose cfg t ev s =
     (let s1 = (sock_upd t (\<lambda>r. r\<lparr>stallArmed := False\<rparr>) s)\<lparr>ws := None\<rparr>;
          a1 = [ClearTimeout (Stall t)]
      in if forcedClose s1 then (s1\<lparr>readyState := CLOSED\<rparr>, a1 @ [Emit Close])
         else
           let s2 = s1\<lparr>readyState := CONNECTING\<rparr>;
               a2 = [Emit (Connecting (Some ev))];
               a3 = (if \<not> reconnectAttempt cfg \<and> \<not> timedOut s2
                     then dbg cfg ''onclose'' @ [Emit Close] else [])
           in (s2\<lparr>retryTimers := retryTimers s2 + 1\<rparr>,
               a1 @ a2 @ a3 @ [SetTimeout Retry (retry_delay cfg (reconnectAttempts s2))]))"

text \<open>
  The callback of the retry timer. \<open>open\<close> takes no parameter, so the argument passed to it
  is dropped.
\<close>

definition retry_timer :: "settings \<Rightarrow> conn \<Rightarrow> conn \<times> action list" where
  "retry_timer cfg s = open_ws cfg (s\<lparr>reconnectAttempts := reconnectAttempts s + 1\<rparr>)"

definition onmessage :: "settings \<Rightarrow> payload \<Rightarrow> conn \<Rightarrow> conn \<times> action list" where
  "onmessage cfg ev s = (s, dbg cfg ''onmessage'' @ [Emit (Message ev)])"

definition onerror :: "settings \<Rightarrow> payload \<Rightarrow> conn \<Rightarrow> conn \<times> action list" where
  "onerror cfg ev s = (s, dbg cfg ''onerror'' @ [Emit (Error ev)])"

text \<open>
  \<open>send(data)\<close>. What the socket's own \<open>send\<close> returns is a parameter. The first
  component is the value returned, or the error thrown.
\<close>

definition send ::
  "(sock \<Rightarrow> payload \<Rightarrow> 'r) \<Rightarrow> settings \<Rightarrow> payload \<Rightarrow> conn \<Rightarrow> (error + 'r) \<times> conn \<times> action list"
  where
  "send tsend cfg d s =
     (case ws s of
        Some t \<Rightarrow> (Inr (tsend t d), s, dbg cfg ''send'' @ [SockSend t d])
      | None \<Rightarrow> (Inl InvalidState, s, []))"

text \<open>
  What a call of the socket's \<open>close\<close> does on the host's side. A socket that is closing
  or closed ignores it. The transport library is not part of the repository, so when it
  dispatches the close event is a parameter: \<open>sync = Some ev\<close> runs the close handler
  inside the call, with event object \<open>ev\<close>; \<open>sync = None\<close> leaves the socket closing and
  the event arrives later.
\<close>

definition sock_close ::
  "payload option \<Rightarrow> settings \<Rightarrow> sock \<Rightarrow> conn \<Rightarrow> conn \<times> action list" where
  "sock_close sync cfg t s =
     (if sstate (sock_at s t) = CONNECTING \<or> sstate (sock_at s t) = OPEN then
        (case sync of
           None \<Rightarrow> (sock_upd t (\<lambda>r. r\<lparr>sstate := CLOSING\<rparr>) s, [])
         | Some ev \<Rightarrow>
             let s1 = sock_upd t (\<lambda>r. r\<lparr>sstate := CLOSED\<rparr>) s
             in if wired (sock_at s1 t) then onclose cfg t ev s1 else (s1, []))
      else (s, []))"

text \<open>\<open>close(code, reason)\<close>: the code defaults to 1000.\<close>

definition close ::
  "payload option \<Rightarrow> settings \<Rightarrow> nat option \<Rightarrow> string option \<Rightarrow> conn \<Rightarrow> conn \<times> action list"
  where
  "close sync cfg code reason s =
     (let code1 = (case code of None \<Rightarrow> 1000 | Some c \<Rightarrow> c);
          s1 = s\<lparr>forcedClose := True\<rparr>
      in case ws s1 of
           None \<Rightarrow> (s1, [])
         | Some t \<Rightarrow>
             (case sock_close sync cfg t s1 of
                (s2, a) \<Rightarrow> (s2, SockClose t (Some code1) reason # a)))"

definition refresh :: "payload option \<Rightarrow> settings \<Rightarrow> conn \<Rightarrow> conn \<times> action list" where
  "refresh sync cfg s =
     (case ws s of
        None \<Rightarrow> (s, [])
      | Some t \<Rightarrow>
          (case sock_close sync cfg t s of (s2, a) \<Rightarrow> (s2, SockClose t None None # a)))"

text \<open>The callback of the stall timer that \<open>open\<close> created for socket \<open>t\<close>.\<close>

definition stall_timer ::
  "payload option \<Rightarrow> settings \<Rightarrow> sock \<Rightarrow> conn \<Rightarrow> conn \<times> action list" where
  "stall_timer sync cfg t s =
     (let s1 = (sock_upd t (\<lambda>r. r\<lparr>stallArmed := False\<rparr>) s)\<lparr>timedOut := True\<rparr>
      in case sock_close sync cfg t s1 of
           (s2, a) \<Rightarrow>
             (s2\<lparr>timedOut := False\<rparr>,
              dbg cfg ''connection-timeout'' @ SockClose t None None # a))"

section \<open>The event loop\<close>

text \<open>
  What the caller and the host can do to an instance. An event the host cannot deliver in
  the state at hand (a timer that is not pending, an event of a socket that does not
  exist or is past it) is skipped. A socket without handlers changes its own state only.
\<close>

datatype event =
    CallOpen
  | CallSend payload
  | CallClose "nat option" "string option"
  | CallRefresh
  | RetryTimer
  | StallTimer sock
  | SockOpened sock string payload
  | SockClosed sock payload
  | SockMessage sock payload
  | SockError sock payload

fun is_CallClose :: "event \<Rightarrow> bool" where
  "is_CallClose (CallClose c r) = True"
| "is_CallClose e = False"

fun is_SockOpened :: "event \<Rightarrow> bool" where
  "is_SockOpened (SockOpened t p ev) = True"
| "is_SockOpened e = False"

definition ok :: "conn \<times> action list \<Rightarrow> conn \<times> action list \<times> error option" where
  "ok r = (fst r, snd r, None)"

fun step ::
  "payload option \<Rightarrow> settings \<Rightarrow> event \<Rightarrow> conn \<Rightarrow> conn \<times> action list \<times> error option"
  where
  "step sync cfg CallOpen s = ok (open_ws cfg s)"
| "step sync cfg (CallSend d) s =
     (case send (\<lambda>t d. ()) cfg d s of
        (Inl e, s1, a) \<Rightarrow> (s1, a, Some e)
      | (Inr r, s1, a) \<Rightarrow> (s1, a, None))"
| "step sync cfg (CallClose c r) s = ok (close sync cfg c r s)"
| "step sync cfg CallRefresh s = ok (refresh sync cfg s)"
| "step sync cfg RetryTimer s =
     (if retryTimers s = 0 then (s, [], None)
      else ok (retry_timer cfg (s\<lparr>retryTimers := retryTimers s - 1\<rparr>)))"
| "step sync cfg (StallTimer t) s =
     (if stallArmed (sock_at s t) then ok (stall_timer sync cfg t s) else (s, [], None))"
| "step sync cfg (SockOpened t p ev) s =
     (if t < length (socks s) \<and> sstate (sock_at s t) = CONNECTING then
        let s1 = sock_upd t (\<lambda>r. r\<lparr>sstate := OPEN, sprotocol := p\<rparr>) s
        in if wired (sock_at s1 t) then onopen cfg t ev s1 else (s1, [], None)
      else (s, [], None))"
| "step sync cfg (SockClosed t ev) s =
     (if t < length (socks s) \<and> sstate (sock_at s t) \<noteq> CLOSED then
        let s1 = sock_upd t (\<lambda>r. r\<lparr>sstate := CLOSED\<rparr>) s
        in if wired (sock_at s1 t) then ok (onclose cfg t ev s1) else (s1, [], None)
      else (s, [], None))"
| "step sync cfg (SockMessage t ev) s =
     (if wired (sock_at s t) \<and> sstate (sock_at s t) = OPEN then ok (onmessage cfg ev s)
      else (s, [], None))"
| "step sync cfg (SockError t ev) s =
     (if wired (sock_at s t) \<and> sstate (sock_at s t) \<noteq> CLOSED then ok (onerror cfg ev s)
      else (s, [], None))"

text \<open>
  A run delivers the events in order and collects the effects. It stops at the first
  error thrown, with the state reached at the throw.
\<close>

fun run ::
  "payload option \<Rightarrow> settings \<Rightarrow> event list \<Rightarrow> conn \<Rightarrow> conn \<times> action list \<times> error option"
  where
  "run sync cfg [] s = (s, [], None)"
| "run sync cfg (e # es) s =
     (case step sync cfg e s of
        (s1, a1, Some err) \<Rightarrow> (s1, a1, Some err)
      | (s1, a1, None) \<Rightarrow>
          (case run sync cfg es s1 of (s2, a2, r) \<Rightarrow> (s2, a1 @ a2, r)))"

text \<open>Readers of a trace of effects.\<close>

fun constructed :: "action list \<Rightarrow> sock list" where
  "constructed [] = []"
| "constructed (NewWebSocket t # as) = t # constructed as"
| "constructed (a # as) = constructed as"

fun retry_delays :: "action list \<Rightarrow> rat list" where
  "retry_delays [] = []"
| "retry_delays (SetTimeout Retry d # as) = d # retry_delays as"
| "retry_delays (a # as) = retry_delays as"

fun emits :: "action list \<Rightarrow> emitted list" where
  "emits [] = []"
| "emits (Emit e # as) = e # emits as"
| "emits (a # as) = emits as"

text \<open>
  The predicate of the lifecycle invariant: no forced close has been requested and the
  instance is connecting or open.
\<close>

definition alive :: "conn \<Rightarrow> bool" where
  "alive s = (\<not> forcedClose s \<and> (readyState s = CONNECTING \<or> readyState s = OPEN))"

section \<open>Frame lemmas\<close>

lemma sock_upd_fields:
  "reconnectAttempts (sock_upd t f s) = reconnectAttempts s"
  "readyState (sock_upd t f s) = readyState s"
  "protocol (sock_upd t f s) = protocol s"
  "ws (sock_upd t f s) = ws s"
  "forcedClose (sock_upd t f s) = forcedClose s"
  "timedOut (sock_upd t f s) = timedOut s"
  "retryTimers (sock_upd t f s) = retryTimers s"
  by (simp_all add: sock_upd_def)

lemma fst_refresh:
  "fst (refresh sync cfg s) =
     (case ws s of None \<Rightarrow> s | Some t \<Rightarrow> fst (sock_close sync cfg t s))"
  by (simp add: refresh_def split: option.splits prod.splits)

lemma fst_stall_timer:
  "fst (stall_timer sync cfg t s) =
     (fst (sock_close sync cfg t
        ((sock_upd t (\<lambda>r. r\<lparr>stallArmed := False\<rparr>) s)\<lparr>timedOut := True\<rparr>)))
     \<lparr>timedOut := False\<rparr>"
  by (simp add: stall_timer_def Let_def split: prod.splits)

section \<open>The instance stays connecting or open until the caller closes it\<close>

lemma alive_sock_upd: "alive (sock_upd t f s) = alive s"
  by (simp add: alive_def sock_upd_fields)

lemma alive_timedOut: "alive (s\<lparr>timedOut := b\<rparr>) = alive s"
  by (simp add: alive_def)

lemma open_ws_alive: "alive s \<Longrightarrow> alive (fst (open_ws cfg s))"
  by (simp add: alive_def open_ws_def Let_def sock_upd_fields)

lemma onclose_alive: "\<not> forcedClose s \<Longrightarrow> alive (fst (onclose cfg t ev s))"
  by (simp add: alive_def onclose_def Let_def sock_upd_fields)

lemma onopen_alive: "alive s \<Longrightarrow> alive (fst (onopen cfg t ev s))"
  by (simp add: alive_def onopen_def Let_def sock_upd_fields split: option.splits)

lemma sock_close_alive: "alive s \<Longrightarrow> alive (fst (sock_close sync cfg t s))"
  by (auto simp: sock_close_def Let_def alive_sock_upd alive_def sock_upd_fields
      intro!: onclose_alive [unfolded alive_def] split: option.splits)

lemma refresh_alive: "alive s \<Longrightarrow> alive (fst (refresh sync cfg s))"
  by (simp add: fst_refresh sock_close_alive split: option.splits)

lemma stall_timer_alive: "alive s \<Longrightarrow> alive (fst (stall_timer sync cfg t s))"
  by (simp add: fst_stall_timer alive_timedOut alive_sock_upd sock_close_alive)

lemma retry_timer_alive: "alive s \<Longrightarrow> alive (fst (retry_timer cfg s))"
  using open_ws_alive [of "s\<lparr>reconnectAttempts := reconnectAttempts s + 1\<rparr>" cfg]
  by (simp add: retry_timer_def alive_def)

lemma step_alive:
  "alive s \<Longrightarrow> \<not> is_CallClose e \<Longrightarrow> alive (fst (step sync cfg e s))"
proof (cases e)
  case CallOpen
  assume "alive s"
  then show ?thesis using CallOpen by (simp add: ok_def open_ws_alive)
next
  case (CallSend d)
  assume "alive s"
  then show ?thesis using CallSend by (simp add: send_def split: option.splits)
next
  case (CallClose c r)
  assume "\<not> is_CallClose e"
  then show ?thesis using CallClose by simp
next
  case CallRefresh
  assume "alive s"
  then show ?thesis using CallRefresh by (simp add: ok_def refresh_alive)
next
  case RetryTimer
  assume a: "alive s"
  then have "alive (s\<lparr>retryTimers := retryTimers s - 1\<rparr>)" by (simp add: alive_def)
  then show ?thesis using RetryTimer a by (simp add: ok_def retry_timer_alive)
next
  case (StallTimer t)
  assume "alive s"
  then show ?thesis using StallTimer by (simp add: ok_def stall_timer_alive)
next
  case (SockOpened t p ev)
  assume "alive s"
  then show ?thesis using SockOpened by (simp add: Let_def onopen_alive alive_sock_upd)
next
  case (SockClosed t ev)
  assume a: "alive s"
  then have "\<not> forcedClose (sock_upd t (\<lambda>r. r\<lparr>sstate := CLOSED\<rparr>) s)"
    by (simp add: alive_def sock_upd_fields)
  then show ?thesis using SockClosed a
    by (simp add: Let_def ok_def onclose_alive alive_sock_upd)
next
  case (SockMessage t ev)
  assume "alive s"
  then show ?thesis using SockMessage by (simp add: ok_def onmessage_def)
next
  case (SockError t ev)
  assume "alive s"
  then show ?thesis using SockError by (simp add: ok_def onerror_def)
qed

lemma run_alive:
  "alive s \<Longrightarrow> list_all (\<lambda>e. \<not> is_CallClose e) evs \<Longrightarrow> alive (fst (run sync cfg evs s))"
proof (induction evs arbitrary: s)
  case Nil
  then show ?case by simp
next
  case (Cons e es)
  have a1: "alive (fst (step sync cfg e s))" using Cons.prems by (simp add: step_alive)
  obtain s1 a1 r where st: "step sync cfg e s = (s1, a1, r)"
    by (cases "step sync cfg e s") auto
  show ?case
  proof (cases r)
    case None
    have "alive (fst (run sync cfg es s1))" using Cons.IH [of s1] Cons.prems a1 st by simp
    then show ?thesis using st None by (cases "run sync cfg es s1") simp
  next
    case (Some err)
    then show ?thesis using st a1 by simp
  qed
qed

lemma construct_alive: "alive (fst (construct cfg))"
  using open_ws_alive [of init cfg] by (simp add: construct_def alive_def init_def)

lemma onclose_forced:
  "forcedClose s \<Longrightarrow>
     onclose cfg t ev s =
       ((sock_upd t (\<lambda>r. r\<lparr>stallArmed := False\<rparr>) s)\<lparr>ws := None, readyState := CLOSED\<rparr>,
        [ClearTimeout (Stall t), Emit Close])"
  by (simp add: onclose_def Let_def sock_upd_fields)

text \<open>
  Claim C8. The instance reaches \<open>CLOSED\<close> only through a close requested by the caller.
  Whatever the caller and the host do after construction, as long as the caller never
  calls \<open>close\<close>, the ready state of the instance is \<open>CONNECTING\<close> or \<open>OPEN\<close>, never
  \<open>CLOSED\<close>. And when \<open>forcedClose\<close> is set, the close handler sets the state to
  \<open>CLOSED\<close>, and its only effects are clearing the stall timer and emitting \<open>close\<close>: it
  schedules no retry.
\<close>

theorem closed_only_by_caller_close:
  "(list_all (\<lambda>e. \<not> is_CallClose e) evs \<longrightarrow>
      readyState (fst (run sync cfg evs (fst (construct cfg)))) \<noteq> CLOSED
      \<and> (readyState (fst (run sync cfg evs (fst (construct cfg)))) = CONNECTING
         \<or> readyState (fst (run sync cfg evs (fst (construct cfg)))) = OPEN))
   \<and> (forcedClose s \<longrightarrow>
        readyState (fst (onclose cfg t ev s)) = CLOSED
        \<and> snd (onclose cfg t ev s) = [ClearTimeout (Stall t), Emit Close]
        \<and> retryTimers (fst (onclose cfg t ev s)) = retryTimers s)"
proof -
  have "alive (fst (run sync cfg evs (fst (construct cfg))))"
    if "list_all (\<lambda>e. \<not> is_CallClose e) evs"
    using that construct_alive run_alive by blast
  then show ?thesis
    by (auto simp: alive_def onclose_forced sock_upd_fields)
qed

theorem closed_only_by_caller_close_witness:
  "list_all (\<lambda>e. \<not> is_CallClose e)
     [SockOpened 0 ''p'' ''o'', SockClosed 0 ''e'', RetryTimer, SockOpened 1 ''p'' ''o'']
   \<and> readyState (fst (run None defaults
        [SockOpened 0 ''p'' ''o'', SockClosed 0 ''e'', RetryTimer, SockOpened 1 ''p'' ''o'']
        (fst (construct defaults)))) = OPEN
   \<and> forcedClose (init\<lparr>forcedClose := True\<rparr>)
   \<and> readyState (fst (onclose defaults 0 ''e'' (init\<lparr>forcedClose := True\<rparr>))) = CLOSED
   \<and> snd (onclose defaults 0 ''e'' (init\<lparr>forcedClose := True\<rparr>))
       = [ClearTimeout (Stall 0), Emit Close]"
  using closed_only_by_caller_close
    [of "[SockOpened 0 ''p'' ''o'', SockClosed 0 ''e'', RetryTimer, SockOpened 1 ''p'' ''o'']"
        None defaults "init\<lparr>forcedClose := True\<rparr>" 0 "''e''"]
  by (simp add: construct_def defaults_def open_ws_def init_def dbg_def sock_upd_def
      sock_at_def new_sock_def onclose_def onopen_def retry_delay_def retry_timer_def
      ok_def exceeded_def)

section \<open>The negotiated sub-protocol\<close>

lemma fst_close:
  "fst (close sync cfg c r s) =
     (case ws s of
        None \<Rightarrow> s\<lparr>forcedClose := True\<rparr>
      | Some t \<Rightarrow> fst (sock_close sync cfg t (s\<lparr>forcedClose := True\<rparr>)))"
  by (simp add: close_def Let_def split: option.splits prod.splits)

lemma open_ws_protocol: "protocol (fst (open_ws cfg s)) = protocol s"
  by (simp add: open_ws_def Let_def sock_upd_fields)

lemma onclose_protocol: "protocol (fst (onclose cfg t ev s)) = protocol s"
  by (simp add: onclose_def Let_def sock_upd_fields)

lemma sock_close_protocol: "protocol (fst (sock_close sync cfg t s)) = protocol s"
  by (simp add: sock_close_def Let_def sock_upd_fields onclose_protocol split: option.splits)

lemma close_protocol: "protocol (fst (close sync cfg c r s)) = protocol s"
  by (simp add: fst_close sock_close_protocol split: option.splits)

lemma step_protocol:
  "\<not> is_SockOpened e \<Longrightarrow> protocol (fst (step sync cfg e s)) = protocol s"
  by (cases e)
    (simp_all add: ok_def open_ws_protocol send_def close_protocol fst_refresh
      sock_close_protocol fst_stall_timer sock_upd_fields retry_timer_def onclose_protocol
      onmessage_def onerror_def Let_def split: option.splits)

lemma run_protocol:
  "list_all (\<lambda>e. \<not> is_SockOpened e) evs \<Longrightarrow>
     protocol (fst (run sync cfg evs s)) = protocol s"
proof (induction evs arbitrary: s)
  case Nil
  then show ?case by simp
next
  case (Cons e es)
  have p1: "protocol (fst (step sync cfg e s)) = protocol s"
    using Cons.prems by (simp add: step_protocol)
  obtain s1 a1 r where st: "step sync cfg e s = (s1, a1, r)"
    by (cases "step sync cfg e s") auto
  show ?case
  proof (cases r)
    case None
    have "protocol (fst (run sync cfg es s1)) = protocol s1"
      using Cons.IH [of s1] Cons.prems by simp
    then show ?thesis using st None p1 by (cases "run sync cfg es s1") simp
  next
    case (Some err)
    then show ?thesis using st p1 by simp
  qed
qed

lemma construct_protocol: "protocol (fst (construct cfg)) = None"
  by (simp add: construct_def open_ws_protocol) (simp add: init_def)

lemma onopen_protocol:
  "ws s = Some u \<Longrightarrow>
     protocol (fst (onopen cfg t ev s))
       = Some (sprotocol (sock_at (sock_upd t (\<lambda>r. r\<lparr>stallArmed := False\<rparr>) s) u))
     \<and> readyState (fst (onopen cfg t ev s)) = OPEN"
  by (simp add: onopen_def Let_def sock_upd_fields)

text \<open>
  Claim C9, as stated, fails: after a socket has opened with sub-protocol \<open>chat\<close> and then
  closed, the instance is \<open>CONNECTING\<close> again, not \<open>OPEN\<close>, and \<open>protocol\<close> still reads
  \<open>chat\<close>.
\<close>

theorem protocol_stale_after_close:
  "readyState (fst (run None defaults [SockOpened 0 ''chat'' ''o'', SockClosed 0 ''e'']
       (fst (construct defaults)))) = CONNECTING
   \<and> protocol (fst (run None defaults [SockOpened 0 ''chat'' ''o'', SockClosed 0 ''e'']
       (fst (construct defaults)))) = Some ''chat''"
  by (simp add: construct_def defaults_def open_ws_def init_def dbg_def sock_upd_def
      sock_at_def new_sock_def onclose_def onopen_def retry_delay_def ok_def)

text \<open>
  Claim C9, amended. The negotiated sub-protocol is null from construction until a socket
  opens: after any events none of which is a socket opening, \<open>protocol\<close> is null. The open
  handler sets it, to the protocol of the socket the instance owns, as it sets the state
  to \<open>OPEN\<close>. Nothing clears it: the close handler, and every other event that is not a
  socket opening, leaves \<open>protocol\<close> as it was, so between a close and the next open it
  keeps the value of the last open.
\<close>

theorem protocol_set_on_open_never_cleared:
  "(list_all (\<lambda>e. \<not> is_SockOpened e) evs \<longrightarrow>
      protocol (fst (run sync cfg evs (fst (construct cfg)))) = None)
   \<and> (ws s = Some u \<longrightarrow>
        protocol (fst (onopen cfg t ev s))
          = Some (sprotocol (sock_at (sock_upd t (\<lambda>r. r\<lparr>stallArmed := False\<rparr>) s) u))
        \<and> readyState (fst (onopen cfg t ev s)) = OPEN)
   \<and> protocol (fst (onclose cfg t ev s)) = protocol s
   \<and> (\<not> is_SockOpened e \<longrightarrow> protocol (fst (step sync cfg e s)) = protocol s)"
  by (simp add: run_protocol construct_protocol onopen_protocol onclose_protocol
      step_protocol)

theorem protocol_set_on_open_never_cleared_witness:
  "list_all (\<lambda>e. \<not> is_SockOpened e) [SockClosed 0 ''e'', RetryTimer, StallTimer 1]
   \<and> protocol (fst (run None defaults [SockClosed 0 ''e'', RetryTimer, StallTimer 1]
        (fst (construct defaults)))) = None
   \<and> ws (init\<lparr>ws := Some 0, socks := [new_sock\<lparr>sprotocol := ''chat''\<rparr>]\<rparr>) = Some 0
   \<and> protocol (fst (onopen defaults 0 ''o''
        (init\<lparr>ws := Some 0, socks := [new_sock\<lparr>sprotocol := ''chat''\<rparr>]\<rparr>))) = Some ''chat''
   \<and> protocol (fst (onclose defaults 0 ''e''
        (init\<lparr>ws := Some 0, socks := [new_sock\<lparr>sprotocol := ''chat''\<rparr>]\<rparr>))) = None
   \<and> \<not> is_SockOpened CallRefresh
   \<and> protocol (fst (step None defaults CallRefresh
        (init\<lparr>ws := Some 0, socks := [new_sock\<lparr>sprotocol := ''chat''\<rparr>]\<rparr>))) = None"
  using protocol_set_on_open_never_cleared
    [of "[SockClosed 0 ''e'', RetryTimer, StallTimer 1]" None defaults
        "init\<lparr>ws := Some 0, socks := [new_sock\<lparr>sprotocol := ''chat''\<rparr>]\<rparr>" 0 0 "''o''"
        CallRefresh]
  by (simp add: construct_def defaults_def open_ws_def init_def dbg_def sock_upd_def
      sock_at_def new_sock_def onclose_def onopen_def retry_delay_def retry_timer_def
      ok_def exceeded_def refresh_def sock_close_def stall_timer_def)

section \<open>Sending and refreshing\<close>

text \<open>
  Claim C7. When the instance owns a socket, \<open>send\<close> hands the payload to that socket as
  it is and returns what the socket's \<open>send\<close> returns; when it owns none, \<open>send\<close> throws
  the invalid-state error, has no effect on the outside (nothing is handed to a socket or
  queued) and leaves the state as it was. In both cases the state is unchanged.
\<close>

theorem send_forwards_or_fails:
  "(case ws s of
      Some t \<Rightarrow>
        send tsend cfg d s = (Inr (tsend t d), s, dbg cfg ''send'' @ [SockSend t d])
    | None \<Rightarrow> send tsend cfg d s = (Inl InvalidState, s, []))"
  by (simp add: send_def split: option.splits)

text \<open>
  Claim C10. When the instance owns no socket, \<open>refresh\<close> does nothing: it has no effect
  on the outside (no event emitted, no socket call) and returns the state unchanged, in
  every field.
\<close>

theorem refresh_without_socket:
  "ws s = None \<Longrightarrow> refresh sync cfg s = (s, [])"
  by (simp add: refresh_def)

theorem refresh_without_socket_witness:
  "ws init = None \<and> refresh None defaults init = (init, [])"
  using refresh_without_socket [of init None defaults]
  by (simp add: init_def)

section \<open>Reconnecting: the retry timer, the attempt counter and the limit\<close>

text \<open>
  The flag \<open>reconnectAttempt\<close> is a setting. No method or handler assigns it, and \<open>open\<close>
  drops the argument the retry timer passes, so every call of \<open>open\<close> sees the value the
  caller configured: \<open>false\<close> unless the options say otherwise.
\<close>

lemma retry_delay_min:
  "retry_delay cfg n =
     min (reconnectInterval cfg * reconnectDecay cfg ^ n) (maxReconnectInterval cfg)"
  by (simp add: retry_delay_def Let_def min_def)

lemma retry_delay_defaults:
  "retry_delay defaults 0 = 1000 \<and> retry_delay defaults 5 = 30375 / 4
   \<and> retry_delay defaults 50 = 300000"
  by code_simp

lemma open_ws_resets_counter:
  "\<not> reconnectAttempt cfg \<Longrightarrow> reconnectAttempts (fst (open_ws cfg s)) = 0"
  by (simp add: open_ws_def Let_def sock_upd_fields)

lemma retry_timer_resets_counter:
  "\<not> reconnectAttempt cfg \<Longrightarrow> reconnectAttempts (fst (retry_timer cfg s)) = 0"
  by (simp add: retry_timer_def open_ws_resets_counter)

lemma retry_timer_counts:
  "reconnectAttempt cfg \<Longrightarrow>
     reconnectAttempts (fst (retry_timer cfg s)) = reconnectAttempts s + 1"
  by (simp add: retry_timer_def open_ws_def Let_def sock_upd_fields)

lemma onopen_resets_counter:
  "ws s = Some u \<Longrightarrow> reconnectAttempts (fst (onopen cfg t ev s)) = 0"
  by (simp add: onopen_def Let_def sock_upd_fields)

lemma onopen_isReconnect:
  "ws s = Some u \<Longrightarrow> emits (fst (snd (onopen cfg t ev s))) = [Open ev (reconnectAttempt cfg)]"
  by (simp add: onopen_def Let_def sock_upd_fields dbg_def)

lemma open_ws_constructs: "constructed (snd (open_ws cfg s)) = [length (socks s)]"
  by (simp add: open_ws_def Let_def dbg_def)

text \<open>
  Claim C1 does not hold of the code. With the default settings, the first socket closes,
  which schedules a retry timer; the caller then calls \<open>close()\<close>, which finds no socket
  and only sets \<open>forcedClose\<close>; the timer that was pending then fires and \<open>open\<close>
  constructs socket 1 although \<open>forcedClose\<close> is set. When that socket opens, the instance
  is \<open>OPEN\<close> after the caller closed it.
\<close>

theorem retry_after_close_constructs_socket:
  "forcedClose (fst (run None defaults [SockClosed 0 ''e'', CallClose None None]
       (fst (construct defaults))))
   \<and> ws (fst (run None defaults [SockClosed 0 ''e'', CallClose None None]
       (fst (construct defaults)))) = None
   \<and> snd (step None defaults RetryTimer
        (fst (run None defaults [SockClosed 0 ''e'', CallClose None None]
           (fst (construct defaults)))))
       = ([NewWebSocket 1, SetBinaryType 1 ''blob'', Emit (Connecting None),
           SetTimeout (Stall 1) 2000], None)
   \<and> readyState (fst (run None defaults
        [SockClosed 0 ''e'', CallClose None None, RetryTimer, SockOpened 1 ''p'' ''o'']
        (fst (construct defaults)))) = OPEN"
  by (simp add: construct_def defaults_def open_ws_def init_def dbg_def sock_upd_def
      sock_at_def new_sock_def onclose_def onopen_def retry_delay_def retry_timer_def
      ok_def exceeded_def close_def sock_close_def)

text \<open>
  Claim C2 does not hold of the code. With \<open>reconnectAttempt\<close> set and a limit of 2, after
  two failed retries the counter is 2; the third retry timer raises it to 3, which exceeds
  the limit, and \<open>open\<close> still constructs socket 3 and stores it in \<open>ws\<close> before it
  returns: three sockets are constructed after the disconnect. With the flag at its
  default the limit is never tested: in the scenario of the specification (interval 100,
  limit 2, every socket closes) the fourth retry constructs a socket as the others did.
\<close>

theorem attempt_limit_constructs_socket:
  "reconnectAttempts (fst (run None
       (defaults\<lparr>maxReconnectAttempts := Some 2, reconnectAttempt := True\<rparr>)
       [SockClosed 0 ''e'', RetryTimer, SockClosed 1 ''e'', RetryTimer, SockClosed 2 ''e'']
       (fst (construct (defaults\<lparr>maxReconnectAttempts := Some 2, reconnectAttempt := True\<rparr>)))))
     = 2
   \<and> snd (step None (defaults\<lparr>maxReconnectAttempts := Some 2, reconnectAttempt := True\<rparr>) RetryTimer
        (fst (run None
          (defaults\<lparr>maxReconnectAttempts := Some 2, reconnectAttempt := True\<rparr>)
          [SockClosed 0 ''e'', RetryTimer, SockClosed 1 ''e'', RetryTimer, SockClosed 2 ''e'']
          (fst (construct (defaults\<lparr>maxReconnectAttempts := Some 2, reconnectAttempt := True\<rparr>))))))
     = ([NewWebSocket 3, SetBinaryType 3 ''blob''], None)
   \<and> ws (fst (step None (defaults\<lparr>maxReconnectAttempts := Some 2, reconnectAttempt := True\<rparr>) RetryTimer
        (fst (run None
          (defaults\<lparr>maxReconnectAttempts := Some 2, reconnectAttempt := True\<rparr>)
          [SockClosed 0 ''e'', RetryTimer, SockClosed 1 ''e'', RetryTimer, SockClosed 2 ''e'']
          (fst (construct (defaults\<lparr>maxReconnectAttempts := Some 2, reconnectAttempt := True\<rparr>)))))))
     = Some 3
   \<and> constructed (fst (snd (run None
        (defaults\<lparr>maxReconnectAttempts := Some 2, reconnectAttempt := True\<rparr>)
        [SockClosed 0 ''e'', RetryTimer, SockClosed 1 ''e'', RetryTimer, SockClosed 2 ''e'',
         RetryTimer]
        (fst (construct (defaults\<lparr>maxReconnectAttempts := Some 2, reconnectAttempt := True\<rparr>))))))
     = [1, 2, 3]
   \<and> constructed (fst (snd (run None
        (defaults\<lparr>reconnectInterval := 100, maxReconnectAttempts := Some 2\<rparr>)
        [SockClosed 0 ''e'', RetryTimer, SockClosed 1 ''e'', RetryTimer, SockClosed 2 ''e'',
         RetryTimer, SockClosed 3 ''e'', RetryTimer]
        (fst (construct (defaults\<lparr>reconnectInterval := 100, maxReconnectAttempts := Some 2\<rparr>))))))
     = [1, 2, 3, 4]"
  by (simp add: construct_def defaults_def open_ws_def init_def dbg_def sock_upd_def
      sock_at_def new_sock_def onclose_def retry_delay_def retry_timer_def ok_def
      exceeded_def)

text \<open>
  Claim C3 does not hold of the code. The delay is computed from the counter as the claim
  says (lemma \<open>retry_delay_min\<close>), but with the default settings every \<open>open\<close> resets the
  counter, so the delay does not grow with the retries: when every socket closes, the
  delays scheduled before retries 0, 1 and 2 are 1000, 1000 and 1000, where the claim
  gives 1000, 1500 and 2250.
\<close>

theorem retry_delay_stays_at_base:
  "retry_delays (fst (snd (run None defaults
       [SockClosed 0 ''e'', RetryTimer, SockClosed 1 ''e'', RetryTimer, SockClosed 2 ''e'']
       (fst (construct defaults)))))
     = [1000, 1000, 1000]"
  by (simp add: construct_def defaults_def open_ws_def init_def dbg_def sock_upd_def
      sock_at_def new_sock_def onclose_def retry_delay_def retry_timer_def ok_def
      exceeded_def)

text \<open>
  Claim C4 does not hold of the code. With the default settings, a socket opens and
  closes, and the two retries that follow both fail with no open in between: the counter
  reads 0 after them, not 2, because the \<open>open\<close> each retry timer calls resets it.
\<close>

theorem reconnectAttempts_zero_after_failed_retries:
  "reconnectAttempts (fst (run None defaults
       [SockOpened 0 ''p'' ''o'', SockClosed 0 ''e'', RetryTimer, SockClosed 1 ''e'',
        RetryTimer, SockClosed 2 ''e'']
       (fst (construct defaults))))
     = 0"
  by (simp add: construct_def defaults_def open_ws_def init_def dbg_def sock_upd_def
      sock_at_def new_sock_def onclose_def onopen_def retry_delay_def retry_timer_def
      ok_def exceeded_def)

text \<open>
  Claim C5 does not hold of the code. With the default settings, a socket opens and is
  lost once; the two retries that follow fail. The listeners receive \<open>close\<close> three times,
  once for the loss and once for each failed retry. With \<open>reconnectAttempt\<close> set in the
  options, the same events emit no \<open>close\<close> at all, not even for the loss.
\<close>

theorem close_emitted_for_every_retry:
  "emits (fst (snd (run None defaults
       [SockOpened 0 ''p'' ''o'', SockClosed 0 ''e'', RetryTimer, SockClosed 1 ''e'',
        RetryTimer, SockClosed 2 ''e'']
       (fst (construct defaults)))))
     = [Open ''o'' False,
        Connecting (Some ''e''), Close, Connecting None,
        Connecting (Some ''e''), Close, Connecting None,
        Connecting (Some ''e''), Close]
   \<and> emits (fst (snd (run None (defaults\<lparr>reconnectAttempt := True\<rparr>)
       [SockOpened 0 ''p'' ''o'', SockClosed 0 ''e'', RetryTimer, SockClosed 1 ''e'',
        RetryTimer, SockClosed 2 ''e'']
       (fst (construct (defaults\<lparr>reconnectAttempt := True\<rparr>))))))
     = [Open ''o'' True,
        Connecting (Some ''e''), Connecting (Some ''e''), Connecting (Some ''e'')]"
  by (simp add: construct_def defaults_def open_ws_def init_def dbg_def sock_upd_def
      sock_at_def new_sock_def onclose_def onopen_def retry_delay_def retry_timer_def
      ok_def exceeded_def)

text \<open>
  Claim C6 does not hold of the code. With the default settings, the first socket fails
  and the socket of the retry opens: the \<open>open\<close> event carries \<open>isReconnect = false\<close>.
  With \<open>reconnectAttempt\<close> set in the options, the first open of a fresh instance carries
  \<open>isReconnect = true\<close>.
\<close>

theorem isReconnect_is_the_setting:
  "emits (fst (snd (step None defaults (SockOpened 1 ''p'' ''o'')
       (fst (run None defaults [SockClosed 0 ''e'', RetryTimer] (fst (construct defaults)))))))
     = [Open ''o'' False]
   \<and> emits (fst (snd (step None (defaults\<lparr>reconnectAttempt := True\<rparr>)
       (SockOpened 0 ''p'' ''o'') (fst (construct (defaults\<lparr>reconnectAttempt := True\<rparr>))))))
     = [Open ''o'' True]"
  by (simp add: construct_def defaults_def open_ws_def init_def dbg_def sock_upd_def
      sock_at_def new_sock_def onclose_def onopen_def retry_delay_def retry_timer_def
      ok_def exceeded_def)

end
